theory Spec2Isabelle
  imports Main
begin

section \<open>The ITS\_LIVE ipyLeaflet notebook\<close>

text \<open>
  The repository is one Jupyter notebook, \<^verbatim>\<open>notebooks/ITS_LIVE_ipyLeaflet_zarr.ipynb\<close>.
  Its code cells build a configuration dictionary, hand it to the velocity widget, plot a
  literal list of points and read the dictionary of open datacubes. The cells are modelled
  one by one; a Python exception is a value \<open>Inl e\<close> of the result type.
\<close>

subsection \<open>Python values, dictionaries and exceptions\<close>

datatype py_error = IndexError | KeyError string | UnrecognizedKey string

text \<open>The values the notebook writes into its dictionary literal: strings, integers, booleans.\<close>

datatype py_value = PyStr string | PyInt int | PyBool bool

text \<open>
  A Python \<^verbatim>\<open>dict\<close> keeps its entries in insertion order, so it is an association list;
  \<^verbatim>\<open>d.keys()\<close> lists the keys in that order.
\<close>

type_synonym ('k, 'v) py_dict = "('k \<times> 'v) list"

definition keys :: "('k, 'v) py_dict \<Rightarrow> 'k list" where
  "keys d = map fst d"

text \<open>\<^verbatim>\<open>xs[i]\<close> on a Python list: a negative index counts from the end, and an index out of
  range raises \<^verbatim>\<open>IndexError\<close>.\<close>

definition py_index :: "'a list \<Rightarrow> int \<Rightarrow> py_error + 'a" where
  "py_index xs i =
     (if - int (length xs) \<le> i \<and> i < int (length xs)
      then Inr (xs ! nat (if i < 0 then int (length xs) + i else i))
      else Inl IndexError)"

text \<open>\<^verbatim>\<open>d[k]\<close> on a dictionary with string keys: a missing key raises \<^verbatim>\<open>KeyError\<close>.\<close>

definition py_getitem :: "(string, 'v) py_dict \<Rightarrow> string \<Rightarrow> py_error + 'v" where
  "py_getitem d k = (case map_of d k of None \<Rightarrow> Inl (KeyError k) | Some v \<Rightarrow> Inr v)"

subsection \<open>The cell that reads the first open datacube\<close>

text \<open>
  \<^verbatim>\<open>
  first_key = list(zarr_cubes_dict.keys())[0]
  print(f'First S3 URI for open cube: {first_key}')
  cube = zarr_cubes_dict[first_key]
  cube
  \<close>
  The notebook calls \<^verbatim>\<open>zarr_cubes_dict\<close> a dictionary of the open datacubes, indexed by
  URI. The datacube handles are objects of a library outside the notebook, so their type
  is a parameter \<open>'h\<close>.
\<close>

definition first_key :: "(string, 'h) py_dict \<Rightarrow> py_error + string" where
  "first_key zarr_cubes_dict = py_index (keys zarr_cubes_dict) 0"

text \<open>\<^verbatim>\<open>cube = zarr_cubes_dict[first_key]\<close>, after the first line of the cell.\<close>

definition first_cube :: "(string, 'h) py_dict \<Rightarrow> py_error + 'h" where
  "first_cube zarr_cubes_dict =
     (case first_key zarr_cubes_dict of
        Inl e \<Rightarrow> Inl e
      | Inr k \<Rightarrow> py_getitem zarr_cubes_dict k)"

text \<open>
  What the cell shows: the printed line, and the printable representation of \<^verbatim>\<open>cube\<close>,
  which the notebook front end asks the handle for. \<open>repr\<close> is the handle's own
  representation (defined by the array library, not by the notebook), hence a parameter.
\<close>

definition show_first_cube ::
    "('h \<Rightarrow> string) \<Rightarrow> (string, 'h) py_dict \<Rightarrow> py_error + (string \<times> string)" where
  "show_first_cube repr zarr_cubes_dict =
     (case first_key zarr_cubes_dict of
        Inl e \<Rightarrow> Inl e
      | Inr k \<Rightarrow>
          (case py_getitem zarr_cubes_dict k of
             Inl e \<Rightarrow> Inl e
           | Inr cube \<Rightarrow> Inr (''First S3 URI for open cube: '' @ k, repr cube)))"

subsection \<open>The configuration cell\<close>

text \<open>
  \<^verbatim>\<open>
  config = {
      "plot": "v",
      "min_separation_days": 1,
      "max_separation_days": 90,
      "color_by": "points",
      "verbose": False
  }
  velocity_widget.set_config(config)
  \<close>
\<close>

definition config :: "(string, py_value) py_dict" where
  "config =
     [(''plot'', PyStr ''v''),
      (''min_separation_days'', PyInt 1),
      (''max_separation_days'', PyInt 90),
      (''color_by'', PyStr ''points''),
      (''verbose'', PyBool False)]"

text \<open>
  Modelled from the spec: the table of recognized configuration keys. The widget module
  that holds it is not among the sources; section 3 of the specification names the keys
  \<^verbatim>\<open>plot\<close>, \<^verbatim>\<open>min_separation_days\<close>, \<^verbatim>\<open>max_separation_days\<close>, \<^verbatim>\<open>color_by\<close> and
  \<^verbatim>\<open>verbose\<close>.
\<close>

definition recognized_keys :: "string list" where
  "recognized_keys =
     [''plot'', ''min_separation_days'', ''max_separation_days'', ''color_by'', ''verbose'']"

definition unrecognized_keys :: "(string, 'v) py_dict \<Rightarrow> string list" where
  "unrecognized_keys options = filter (\<lambda>k. k \<notin> set recognized_keys) (keys options)"

text \<open>
  Modelled from the spec: \<^verbatim>\<open>set_config(options)\<close> of the velocity widget, whose module is
  not among the sources. It applies the configuration mapping and fails on an
  unrecognized key. The state it changes is the configuration in force; the error names
  the first offending key.
\<close>

definition set_config ::
    "(string, py_value) py_dict \<Rightarrow> (string, py_value) py_dict \<Rightarrow>
       py_error + (string, py_value) py_dict" where
  "set_config options current =
     (case unrecognized_keys options of
        [] \<Rightarrow> Inr options
      | k # _ \<Rightarrow> Inl (UnrecognizedKey k))"

subsection \<open>The open-cubes mapping as a cache of lazily loaded handles\<close>







section \<open>Properties\<close>

lemma py_index_zero: "py_index xs 0 = (case xs of [] \<Rightarrow> Inl IndexError | x # _ \<Rightarrow> Inr x)"
  by (cases xs) (simp_all add: py_index_def)

lemma first_key_Nil: "first_key [] = Inl IndexError"
  by (simp add: first_key_def keys_def py_index_zero)

lemma first_key_Cons: "first_key ((k, v) # d) = Inr k"
  by (simp add: first_key_def keys_def py_index_zero)

text \<open>
  Claim C9. The access \<^verbatim>\<open>list(zarr_cubes_dict.keys())[0]\<close> is defined only for a
  dictionary with at least one entry: on the empty dictionary it raises
  \<^verbatim>\<open>IndexError\<close>, and once a datacube has been opened (the dictionary is not empty) it
  returns the first key, so the \<^verbatim>\<open>IndexError\<close> branch cannot be taken.
\<close>

theorem first_key_defined_iff_open:
  "(zarr_cubes_dict = [] \<longrightarrow> first_key zarr_cubes_dict = Inl IndexError) \<and>
   (zarr_cubes_dict \<noteq> [] \<longrightarrow>
      first_key zarr_cubes_dict = Inr (fst (hd zarr_cubes_dict)) \<and>
      first_key zarr_cubes_dict \<noteq> Inl IndexError)"
  by (cases zarr_cubes_dict) (auto simp: first_key_Nil first_key_Cons)

theorem first_key_defined_iff_open_witness:
  "[(''s3://its-live-data/datacubes/v02/N70W050/cube.zarr'', ())] \<noteq> [] \<and>
   first_key [(''s3://its-live-data/datacubes/v02/N70W050/cube.zarr'', ())]
     = Inr ''s3://its-live-data/datacubes/v02/N70W050/cube.zarr'' \<and>
   first_key ([] :: (string, unit) py_dict) = Inl IndexError"
  using first_key_defined_iff_open
          [of "[(''s3://its-live-data/datacubes/v02/N70W050/cube.zarr'', ())]"]
        first_key_defined_iff_open [of "[] :: (string, unit) py_dict"]
  by simp

lemma py_getitem_head: "py_getitem ((k, v) # d) k = Inr v"
  by (simp add: py_getitem_def)

text \<open>
  Claim C5. When the dictionary of open datacubes has an entry, indexing it by its first
  key raises neither \<^verbatim>\<open>IndexError\<close> nor \<^verbatim>\<open>KeyError\<close>: the cell gets the handle stored
  under that key, prints the line with the key and shows the handle's printable
  representation.
\<close>

theorem show_first_cube_open:
  "zarr_cubes_dict \<noteq> [] \<Longrightarrow>
     first_cube zarr_cubes_dict = Inr (snd (hd zarr_cubes_dict)) \<and>
     show_first_cube repr zarr_cubes_dict =
       Inr (''First S3 URI for open cube: '' @ fst (hd zarr_cubes_dict),
            repr (snd (hd zarr_cubes_dict)))"
proof (cases zarr_cubes_dict)
  case Nil
  assume "zarr_cubes_dict \<noteq> []"
  with Nil show ?thesis by simp
next
  case (Cons kv rest)
  obtain k cube where kv: "kv = (k, cube)" by (cases kv)
  have "first_key zarr_cubes_dict = Inr k"
    unfolding Cons kv by (rule first_key_Cons)
  moreover have "py_getitem zarr_cubes_dict k = Inr cube"
    unfolding Cons kv by (rule py_getitem_head)
  ultimately show ?thesis
    by (simp add: first_cube_def show_first_cube_def Cons kv)
qed

theorem show_first_cube_open_witness:
  "[(''s3://its-live-data/datacubes/v02/N70W050/cube.zarr'', (3::nat))] \<noteq> [] \<and>
   first_cube [(''s3://its-live-data/datacubes/v02/N70W050/cube.zarr'', (3::nat))] = Inr 3 \<and>
   show_first_cube (\<lambda>n. replicate n CHR ''x'')
       [(''s3://its-live-data/datacubes/v02/N70W050/cube.zarr'', (3::nat))]
     = Inr (''First S3 URI for open cube: s3://its-live-data/datacubes/v02/N70W050/cube.zarr'',
            ''xxx'')"
  using show_first_cube_open
          [of "[(''s3://its-live-data/datacubes/v02/N70W050/cube.zarr'', (3::nat))]"
              "\<lambda>n. replicate n CHR ''x''"]
  by (simp add: numeral_3_eq_3)

text \<open>
  Claim C10. The keys of the notebook's \<^verbatim>\<open>config\<close> literal are exactly the five recognized
  keys, each once and no other, so no key of it is unrecognized and the call
  \<^verbatim>\<open>set_config(config)\<close> does not take the branch for an unrecognized key: it returns with
  the literal as the configuration in force.
\<close>

theorem config_keys_recognized:
  "set (keys config) = set recognized_keys \<and>
   distinct (keys config) \<and>
   length (keys config) = 5 \<and>
   unrecognized_keys config = [] \<and>
   set_config config current = Inr config"
  by (simp add: config_def recognized_keys_def keys_def unrecognized_keys_def set_config_def)









end
